theory Spec2Isabelle
  imports Main
begin

section \<open>Python values\<close>

text \<open>
  The scripts under \<^verbatim>\<open>src/work-on-ticket/scripts\<close> pass decoded JSON around as Python
  values: \<^verbatim>\<open>None\<close>, booleans, numbers, strings, lists and dicts. A dict is an
  association list read with \<open>map_of\<close>. Strings are ASCII text: one \<open>char\<close> per
  code point; the character classes below are those of Python 3 on the code
  points below 128.
\<close>

datatype json =
    JNull
  | JBool bool
  | JNum int
  | JStr string
  | JArr "json list"
  | JObj "(string \<times> json) list"

text \<open>
  The exceptions the scripts raise, by class. \<open>HTTPError\<close> carries the status code of
  its response, \<open>RequestException\<close> stands for the transport failures of the
  \<^verbatim>\<open>requests\<close> library other than \<open>HTTPError\<close> (connection refused, timeout, ...),
  \<open>SystemExit\<close> carries the exit code. \<open>JSONDecodeError\<close> is the one of
  \<^verbatim>\<open>requests.exceptions\<close>, a \<open>RequestException\<close> too. \<open>InterpolationError\<close> is what
  \<^verbatim>\<open>configparser\<close> raises from \<^verbatim>\<open>get\<close> for a value it cannot interpolate;
  \<open>SyntaxError\<close> is the compiler's.
\<close>

datatype exn =
    HTTPError nat
  | RequestException string
  | JSONDecodeError
  | KeyError string
  | TypeError
  | AttributeError
  | CalledProcessError "string list"
  | FileNotFoundError
  | ConfigParserError
  | InterpolationError
  | SyntaxError
  | SystemExit nat

text \<open>\<^verbatim>\<open>except Exception\<close> catches every class above but \<open>SystemExit\<close>.\<close>

fun is_Exception :: "exn \<Rightarrow> bool" where
  "is_Exception (SystemExit n) = False"
| "is_Exception e = True"

text \<open>\<^verbatim>\<open>except requests.exceptions.RequestException\<close>.\<close>

fun is_RequestException :: "exn \<Rightarrow> bool" where
  "is_RequestException (HTTPError n) = True"
| "is_RequestException (RequestException k) = True"
| "is_RequestException JSONDecodeError = True"
| "is_RequestException e = False"

text \<open>
  The exit code of the interpreter: 0 when the script returns, the code of a
  \<open>SystemExit\<close>, 1 after the traceback of any other exception.
\<close>

fun exit_code :: "exn + 'a \<Rightarrow> nat" where
  "exit_code (Inr x) = 0"
| "exit_code (Inl (SystemExit n)) = n"
| "exit_code (Inl e) = 1"

text \<open>Truth value of a Python object (\<^verbatim>\<open>if v:\<close>, \<^verbatim>\<open>not v\<close>, \<^verbatim>\<open>a or b\<close>).\<close>

fun truthy :: "json \<Rightarrow> bool" where
  "truthy JNull = False"
| "truthy (JBool b) = b"
| "truthy (JNum n) = (n \<noteq> 0)"
| "truthy (JStr s) = (s \<noteq> [])"
| "truthy (JArr xs) = (xs \<noteq> [])"
| "truthy (JObj d) = (d \<noteq> [])"

text \<open>\<^verbatim>\<open>v[key]\<close> with a string key: only a dict can be subscripted by a string.\<close>

fun getitem :: "json \<Rightarrow> string \<Rightarrow> exn + json" where
  "getitem (JObj d) key = (case map_of d key of None \<Rightarrow> Inl (KeyError key) | Some v \<Rightarrow> Inr v)"
| "getitem v key = Inl TypeError"

text \<open>\<^verbatim>\<open>v.get(key, default)\<close>: only a dict has the method.\<close>

fun dict_get :: "json \<Rightarrow> string \<Rightarrow> json \<Rightarrow> exn + json" where
  "dict_get (JObj d) key dflt = Inr (case map_of d key of None \<Rightarrow> dflt | Some v \<Rightarrow> v)"
| "dict_get v key dflt = Inl AttributeError"

text \<open>\<^verbatim>\<open>for x in v\<close>: a list yields its items, a string its characters, a dict its keys.\<close>

fun py_iter :: "json \<Rightarrow> exn + json list" where
  "py_iter (JArr xs) = Inr xs"
| "py_iter (JStr s) = Inr (map (\<lambda>c. JStr [c]) s)"
| "py_iter (JObj d) = Inr (map (\<lambda>kv. JStr (fst kv)) d)"
| "py_iter v = Inl TypeError"

text \<open>\<^verbatim>\<open>sep.join(parts)\<close>: every part must be a string.\<close>

fun join :: "string \<Rightarrow> string list \<Rightarrow> string" where
  "join sep [] = []"
| "join sep [x] = x"
| "join sep (x # y # ys) = x @ sep @ join sep (y # ys)"

fun strings_of :: "json list \<Rightarrow> exn + string list" where
  "strings_of [] = Inr []"
| "strings_of (JStr s # rest) =
     (case strings_of rest of Inl e \<Rightarrow> Inl e | Inr ss \<Rightarrow> Inr (s # ss))"
| "strings_of (v # rest) = Inl TypeError"

definition py_join :: "string \<Rightarrow> json list \<Rightarrow> exn + string" where
  "py_join sep parts =
     (case strings_of parts of Inl e \<Rightarrow> Inl e | Inr ss \<Rightarrow> Inr (join sep ss))"

section \<open>start-work.py: slugify\<close>

definition ord :: "char \<Rightarrow> nat" where
  "ord c = of_char c"

definition is_ascii :: "char \<Rightarrow> bool" where
  "is_ascii c = (ord c < 128)"

definition is_upper :: "char \<Rightarrow> bool" where
  "is_upper c = (65 \<le> ord c \<and> ord c \<le> 90)"

definition is_lower :: "char \<Rightarrow> bool" where
  "is_lower c = (97 \<le> ord c \<and> ord c \<le> 122)"

definition is_digit :: "char \<Rightarrow> bool" where
  "is_digit c = (48 \<le> ord c \<and> ord c \<le> 57)"

text \<open>
  The text is read as ASCII: on ASCII text \<^verbatim>\<open>str.lower()\<close> and the classes \<^verbatim>\<open>\w\<close> and
  \<^verbatim>\<open>\s\<close> are what follows. Outside ASCII Python lowers and keeps further letters
  and digits; the properties that depend on it are stated for ASCII text.
\<close>

text \<open>\<^verbatim>\<open>str.lower()\<close>, one character at a time.\<close>

definition lower_char :: "char \<Rightarrow> char" where
  "lower_char c = (if is_upper c then char_of (ord c + 32) else c)"

definition py_lower :: "string \<Rightarrow> string" where
  "py_lower s = map lower_char s"

text \<open>The regular expression class \<^verbatim>\<open>\w\<close>: letters, digits and the underscore.\<close>

definition is_word :: "char \<Rightarrow> bool" where
  "is_word c = (is_upper c \<or> is_lower c \<or> is_digit c \<or> c = CHR ''_'')"

text \<open>
  The class \<^verbatim>\<open>\s\<close> on a \<^verbatim>\<open>str\<close> pattern: tab, newline, vertical tab, form feed,
  carriage return, the four separators 0x1C to 0x1F, and the space.
\<close>

definition is_space :: "char \<Rightarrow> bool" where
  "is_space c = ((9 \<le> ord c \<and> ord c \<le> 13) \<or> (28 \<le> ord c \<and> ord c \<le> 32))"

definition is_hyphen :: "char \<Rightarrow> bool" where
  "is_hyphen c = (c = CHR ''-'')"

text \<open>\<^verbatim>\<open>re.sub(r'[^\w\s-]', '', text)\<close>: every character outside the class is dropped.\<close>

definition remove_special :: "string \<Rightarrow> string" where
  "remove_special t = filter (\<lambda>c. is_word c \<or> is_space c \<or> is_hyphen c) t"

definition is_sep :: "char \<Rightarrow> bool" where
  "is_sep c = (is_hyphen c \<or> is_space c)"

text \<open>
  \<^verbatim>\<open>re.sub(r'[-\s]+', '-', text)\<close>: each maximal run of hyphens and whitespace becomes
  one hyphen.
\<close>

function collapse_seps :: "string \<Rightarrow> string" where
  "collapse_seps [] = []"
| "collapse_seps (c # cs) =
     (if is_sep c then CHR ''-'' # collapse_seps (dropWhile is_sep cs)
      else c # collapse_seps cs)"
  by pat_completeness auto
termination
  by (relation "measure length") (auto simp: less_Suc_eq_le length_dropWhile_le)

text \<open>\<^verbatim>\<open>text.strip('-')\<close>.\<close>

definition strip_hyphens :: "string \<Rightarrow> string" where
  "strip_hyphens t = rev (dropWhile is_hyphen (rev (dropWhile is_hyphen t)))"

text \<open>
  \<^verbatim>\<open>
  def slugify(text: str) -> str:
      text = re.sub(r'[^\w\s-]', '', text.lower())
      text = re.sub(r'[-\s]+', '-', text)
      text = text.strip('-')
      return text[:50]
  \<close>
\<close>

definition slugify :: "string \<Rightarrow> string" where
  "slugify text =
     take 50 (strip_hyphens (collapse_seps (remove_special (py_lower text))))"

text \<open>The alphabet the specification promises, and the one the code delivers.\<close>

definition spec_slug_char :: "char \<Rightarrow> bool" where
  "spec_slug_char c = (is_lower c \<or> is_digit c \<or> is_hyphen c)"

definition slug_char :: "char \<Rightarrow> bool" where
  "slug_char c = (is_lower c \<or> is_digit c \<or> c = CHR ''_'' \<or> is_hyphen c)"

text \<open>\<^verbatim>\<open>v.lower()\<close>: only a string has the method.\<close>

fun str_lower :: "json \<Rightarrow> exn + string" where
  "str_lower (JStr s) = Inr (py_lower s)"
| "str_lower v = Inl AttributeError"

section \<open>start-work.py and fetch-ticket.py: extract_text_from_adf\<close>

lemma size_map_of: "map_of node k = Some v \<Longrightarrow> size v < size (JObj node)"
  by (induction node) (auto split: if_splits)

lemma size_child:
  assumes "map_of node k = Some (JArr children)" and "child \<in> set children"
  shows "size child < size (JObj node)"
proof -
  from assms(2) have "size child \<le> size_list size children"
    by (rule size_list_estimation') simp
  also have "\<dots> < size (JArr children)" by simp
  also have "\<dots> < size (JObj node)" using assms(1) by (rule size_map_of)
  finally show ?thesis .
qed

text \<open>
  start-work.py, lines 185 to 198. The nested function appends to the list
  \<^verbatim>\<open>text_parts\<close> of the enclosing call; here it takes the list and returns it.
  \<^verbatim>\<open>
  def extract(node):
      if isinstance(node, dict):
          if node.get('type') == 'text':
              text_parts.append(node.get('text', ''))
          elif 'content' in node:
              for child in node['content']:
                  extract(child)
  \<close>
  The loop over \<^verbatim>\<open>node['content']\<close> raises \<open>TypeError\<close> when the value cannot be
  iterated. A string yields its characters and a dict its keys: strings, on which
  the nested function does nothing.
\<close>

function (sequential) extract_node :: "json \<Rightarrow> json list \<Rightarrow> exn + json list"
  and extract_children :: "json list \<Rightarrow> json list \<Rightarrow> exn + json list" where
  "extract_node (JObj node) text_parts =
     (if map_of node ''type'' = Some (JStr ''text'')
      then Inr (text_parts @ [case map_of node ''text'' of None \<Rightarrow> JStr [] | Some v \<Rightarrow> v])
      else case map_of node ''content'' of
             None \<Rightarrow> Inr text_parts
           | Some (JArr children) \<Rightarrow> extract_children children text_parts
           | Some (JStr s) \<Rightarrow> Inr text_parts
           | Some (JObj d) \<Rightarrow> Inr text_parts
           | Some v \<Rightarrow> Inl TypeError)"
| "extract_node v text_parts = Inr text_parts"
| "extract_children [] text_parts = Inr text_parts"
| "extract_children (child # rest) text_parts =
     (case extract_node child text_parts of
        Inl e \<Rightarrow> Inl e
      | Inr text_parts' \<Rightarrow> extract_children rest text_parts')"
  by pat_completeness auto
termination
  by (relation "measure (\<lambda>x. case x of Inl (n, _) \<Rightarrow> size n | Inr (cs, _) \<Rightarrow> size_list size cs)")
    (auto dest!: size_map_of)

definition extract_text_from_adf :: "json \<Rightarrow> exn + string" where
  "extract_text_from_adf adf =
     (case extract_node adf [] of
        Inl e \<Rightarrow> Inl e
      | Inr text_parts \<Rightarrow> py_join '' '' text_parts)"

text \<open>
  fetch-ticket.py, lines 168 to 187: the same walk, which also descends into a list
  met as a node, and returns \<^verbatim>\<open>str(adf)\<close> when the argument is not a dict. The
  builtin \<^verbatim>\<open>str\<close> is a parameter.
\<close>

function (sequential) ft_extract_node :: "json \<Rightarrow> json list \<Rightarrow> exn + json list"
  and ft_extract_children :: "json list \<Rightarrow> json list \<Rightarrow> exn + json list" where
  "ft_extract_node (JObj node) text_parts =
     (if map_of node ''type'' = Some (JStr ''text'')
      then Inr (text_parts @ [case map_of node ''text'' of None \<Rightarrow> JStr [] | Some v \<Rightarrow> v])
      else case map_of node ''content'' of
             None \<Rightarrow> Inr text_parts
           | Some (JArr children) \<Rightarrow> ft_extract_children children text_parts
           | Some (JStr s) \<Rightarrow> Inr text_parts
           | Some (JObj d) \<Rightarrow> Inr text_parts
           | Some v \<Rightarrow> Inl TypeError)"
| "ft_extract_node (JArr items) text_parts = ft_extract_children items text_parts"
| "ft_extract_node v text_parts = Inr text_parts"
| "ft_extract_children [] text_parts = Inr text_parts"
| "ft_extract_children (child # rest) text_parts =
     (case ft_extract_node child text_parts of
        Inl e \<Rightarrow> Inl e
      | Inr text_parts' \<Rightarrow> ft_extract_children rest text_parts')"
  by pat_completeness auto
termination
  by (relation "measure (\<lambda>x. case x of Inl (n, _) \<Rightarrow> size n | Inr (cs, _) \<Rightarrow> size_list size cs)")
    (auto dest!: size_map_of)

definition ft_extract_text_from_adf :: "(json \<Rightarrow> string) \<Rightarrow> json \<Rightarrow> exn + string" where
  "ft_extract_text_from_adf py_str adf =
     (case adf of
        JObj node \<Rightarrow>
          (case ft_extract_node adf [] of
             Inl e \<Rightarrow> Inl e
           | Inr text_parts \<Rightarrow> py_join '' '' text_parts)
      | v \<Rightarrow> Inr (py_str adf))"

text \<open>
  The document tree of the claim: every node is a dict, the \<^verbatim>\<open>content\<close> of a node that
  is not a text node, when it has one, is a list of nodes, and the \<^verbatim>\<open>text\<close> of a text
  node, when it has one, is a string.
\<close>

function adf_tree :: "json \<Rightarrow> bool" where
  "adf_tree (JObj node) =
     (if map_of node ''type'' = Some (JStr ''text'')
      then (case map_of node ''text'' of None \<Rightarrow> True | Some (JStr s) \<Rightarrow> True | Some v \<Rightarrow> False)
      else (case map_of node ''content'' of
              None \<Rightarrow> True
            | Some (JArr children) \<Rightarrow> list_all adf_tree children
            | Some v \<Rightarrow> False))"
| "adf_tree JNull = False"
| "adf_tree (JBool b) = False"
| "adf_tree (JNum n) = False"
| "adf_tree (JStr s) = False"
| "adf_tree (JArr xs) = False"
  by pat_completeness auto
termination
  by (relation "measure size") (auto dest: size_child)

text \<open>
  The claim's words: the text nodes among a node and its descendants, in depth-first
  document order, a text node standing for itself whatever lies below it; and the
  text of one (the empty string when it has no \<^verbatim>\<open>text\<close> field).
\<close>

function text_nodes :: "json \<Rightarrow> json list" where
  "text_nodes (JObj node) =
     (if map_of node ''type'' = Some (JStr ''text'') then [JObj node]
      else case map_of node ''content'' of
             Some (JArr children) \<Rightarrow> concat (map text_nodes children)
           | _ \<Rightarrow> [])"
| "text_nodes JNull = []"
| "text_nodes (JBool b) = []"
| "text_nodes (JNum n) = []"
| "text_nodes (JStr s) = []"
| "text_nodes (JArr xs) = []"
  by pat_completeness auto
termination
  by (relation "measure size") (auto dest: size_child)

fun text_of :: "json \<Rightarrow> string" where
  "text_of (JObj node) = (case map_of node ''text'' of Some (JStr s) \<Rightarrow> s | _ \<Rightarrow> [])"
| "text_of v = []"

section \<open>The world of a run\<close>

text \<open>
  What a script prints, as one constructor for each \<^verbatim>\<open>print\<close> statement (or block of
  consecutive ones), with the values it formats.
\<close>

datatype msg =
    MsgConfigFileNotFound                \<comment> \<open>jira_config.py, lines 33 and 34\<close>
  | MsgProfileNotFound string            \<comment> \<open>jira_config.py, line 53\<close>
  | MsgMissing string                    \<comment> \<open>jira_config.py, line 75\<close>
  | MsgSetupHelp                         \<comment> \<open>jira_config.py, lines 86 to 88\<close>
  | MsgAuthFailed                        \<comment> \<open>fetch-ticket.py, line 56\<close>
  | MsgTicketNotFound string             \<comment> \<open>fetch-ticket.py, line 58\<close>
  | MsgHttpError exn                     \<comment> \<open>fetch-ticket.py, line 60\<close>
  | MsgConnectError exn                  \<comment> \<open>fetch-ticket.py, line 63\<close>
  | MsgTransitionNotAvailable string     \<comment> \<open>start-work.py, line 73\<close>
  | MsgBranchExists string               \<comment> \<open>start-work.py, line 138\<close>
  | MsgBranchCreated string              \<comment> \<open>start-work.py, line 145\<close>
  | MsgGitError exn                      \<comment> \<open>start-work.py, line 149\<close>

text \<open>An HTTP request of a \<^verbatim>\<open>requests.Session\<close>, and the response.\<close>

datatype http_method = GET | POST

record request =
  req_method :: http_method
  url :: string
  params :: "(string \<times> string) list"
  payload :: "json option"
  auth :: "string \<times> string"
  headers :: "(string \<times> string) list"

text \<open>The status code and the body, \<open>None\<close> when the body is not JSON.\<close>

datatype response = Response nat "json option"

text \<open>
  The local repository, as far as the four git commands of \<^verbatim>\<open>create_branch\<close> read
  and change it. \<open>branches\<close> are the local branches that exist; \<open>head_branch\<close> is the
  branch HEAD names (\<open>None\<close> when HEAD is detached). A branch exists once it has a
  commit: in a repository whose current branch has none yet, \<open>head_branch\<close> names a
  branch that is not among \<open>branches\<close>. \<open>ref_ok\<close> is git's own rule for the names it
  accepts for a new branch; \<open>checkout_refused\<close> holds of the branches git would
  refuse to switch to (local changes that the switch would overwrite).
\<close>

record git_state =
  git_installed :: bool
  is_repo :: bool
  branches :: "string list"
  head_branch :: "string option"
  ref_ok :: "string \<Rightarrow> bool"
  checkout_refused :: "string \<Rightarrow> bool"

text \<open>
  A config file as \<^verbatim>\<open>configparser\<close> reads it: absent, rejected by the parser, or
  the options of the \<^verbatim>\<open>DEFAULT\<close> section and the other sections by name. Each
  option stands with what \<^verbatim>\<open>get\<close> does for it: the string it returns, after
  interpolation, or the error it raises (a lone \<^verbatim>\<open>%\<close> in the value, a reference to
  an option that does not exist). A section lists an option of \<^verbatim>\<open>DEFAULT\<close> itself
  where \<^verbatim>\<open>get\<close> through that section does something else with it.
\<close>

datatype config_file =
    NoFile
  | Malformed
  | Parsed "(string \<times> (exn + string)) list" "(string \<times> (string \<times> (exn + string)) list) list"

text \<open>What leaves the process, in order: a line printed, a request sent, a command run.\<close>

datatype event =
    Print msg
  | Sent request
  | Ran "string list"

text \<open>
  The world: the config file in the working directory and the one beside the
  scripts, the environment variables, the tracker (its reply to each request: a
  transport failure or a response), the repository, and the events so far.
\<close>

record world =
  cwd_config :: config_file
  script_config :: config_file
  environ :: "(string \<times> string) list"
  server :: "request \<Rightarrow> string + response"
  repo :: git_state
  trace :: "event list"

text \<open>A statement: it runs in a world, returns or raises, and leaves a world.\<close>

type_synonym 'a io = "world \<Rightarrow> (exn + 'a) \<times> world"

definition ret :: "'a \<Rightarrow> 'a io" where
  "ret x w = (Inr x, w)"

definition raise :: "exn \<Rightarrow> 'a io" where
  "raise e w = (Inl e, w)"

definition lift :: "exn + 'a \<Rightarrow> 'a io" where
  "lift r w = (r, w)"

text \<open>Sequencing: an exception of the first statement skips the rest.\<close>

definition then_do :: "'a io \<Rightarrow> ('a \<Rightarrow> 'b io) \<Rightarrow> 'b io" where
  "then_do m f w = (case m w of (Inl e, w') \<Rightarrow> (Inl e, w') | (Inr x, w') \<Rightarrow> f x w')"

text \<open>\<^verbatim>\<open>try: m except E as e: h(e)\<close>, for the exceptions of class \<open>E\<close>.\<close>

definition try_except :: "'a io \<Rightarrow> (exn \<Rightarrow> bool) \<Rightarrow> (exn \<Rightarrow> 'a io) \<Rightarrow> 'a io" where
  "try_except m caught h w =
     (case m w of
        (Inl e, w') \<Rightarrow> if caught e then h e w' else (Inl e, w')
      | (Inr x, w') \<Rightarrow> (Inr x, w'))"

definition emit :: "event \<Rightarrow> unit io" where
  "emit ev w = (Inr (), w\<lparr>trace := trace w @ [ev]\<rparr>)"

definition say :: "msg \<Rightarrow> unit io" where
  "say m = emit (Print m)"

text \<open>\<^verbatim>\<open>sys.exit(n)\<close> and the builtin \<^verbatim>\<open>exit(n)\<close>.\<close>

definition sys_exit :: "nat \<Rightarrow> 'a io" where
  "sys_exit n = raise (SystemExit n)"

section \<open>jira_config.py\<close>

text \<open>
  The \<^verbatim>\<open>JiraConfig\<close> object: whether its file exists, and the parsed contents.
  \<^verbatim>\<open>__init__\<close> (lines 15 to 34) takes \<^verbatim>\<open>.jira-config\<close> of the working directory,
  or, when that does not exist, the one beside the scripts.
\<close>

record jira_config =
  file_exists :: bool
  defaults :: "(string \<times> (exn + string)) list"
  sections :: "(string \<times> (string \<times> (exn + string)) list) list"

definition JiraConfig :: "jira_config io" where
  "JiraConfig w =
     (let config_file = (if cwd_config w \<noteq> NoFile then cwd_config w else script_config w)
      in case config_file of
           NoFile \<Rightarrow>
             then_do (say MsgConfigFileNotFound)
               (\<lambda>_. ret \<lparr>file_exists = False, defaults = [], sections = []\<rparr>) w
         | Malformed \<Rightarrow> raise ConfigParserError w
         | Parsed ds secs \<Rightarrow> ret \<lparr>file_exists = True, defaults = ds, sections = secs\<rparr> w)"

text \<open>The three fields of a profile; \<open>None\<close> is Python's \<^verbatim>\<open>None\<close>.\<close>

record credentials =
  cred_url :: "string option"
  cred_email :: "string option"
  cred_token :: "string option"

text \<open>\<^verbatim>\<open>profile_name in self.config\<close>: a section, or the name \<^verbatim>\<open>DEFAULT\<close>.\<close>

definition has_profile :: "jira_config \<Rightarrow> string \<Rightarrow> bool" where
  "has_profile self name = (name = ''DEFAULT'' \<or> name \<in> fst ` set (sections self))"

text \<open>
  \<^verbatim>\<open>self.config[profile_name].get(option)\<close>: what \<^verbatim>\<open>get\<close> does for the option of
  the section, else for the one of \<^verbatim>\<open>DEFAULT\<close>; \<^verbatim>\<open>None\<close> when neither has it.
\<close>

definition section_get :: "jira_config \<Rightarrow> string \<Rightarrow> string \<Rightarrow> exn + string option" where
  "section_get self name option =
     (case (case map_of (sections self) name of
              None \<Rightarrow> map_of (defaults self) option
            | Some opts \<Rightarrow>
                (case map_of opts option of
                   None \<Rightarrow> map_of (defaults self) option
                 | Some r \<Rightarrow> Some r)) of
        None \<Rightarrow> Inr None
      | Some (Inl e) \<Rightarrow> Inl e
      | Some (Inr v) \<Rightarrow> Inr (Some v))"

text \<open>
  \<^verbatim>\<open>self.config.get('DEFAULT', 'default_profile', fallback='ihkreddy')\<close>: the fallback
  stands in for a missing option, not for an interpolation error.
\<close>

definition default_profile_name :: "jira_config \<Rightarrow> exn + string" where
  "default_profile_name self =
     (case map_of (defaults self) ''default_profile'' of
        None \<Rightarrow> Inr ''ihkreddy''
      | Some (Inl e) \<Rightarrow> Inl e
      | Some (Inr v) \<Rightarrow> Inr v)"

text \<open>
  \<^verbatim>\<open>
  def get_profile(self, profile_name=None):
      if self.config_file.exists():
          if profile_name is None:
              profile_name = self.config.get('DEFAULT', 'default_profile', fallback='ihkreddy')
          if profile_name in self.config:
              profile = self.config[profile_name]
              return {'url': profile.get('url'), 'email': profile.get('email'),
                      'token': profile.get('token')}
          else:
              print(f"Profile '{profile_name}' not found in config")
      return {'url': os.environ.get('JIRA_URL', 'https://ihkreddy.atlassian.net'),
              'email': os.environ.get('JIRA_EMAIL'),
              'token': os.environ.get('JIRA_API_TOKEN')}
  \<close>
  The three \<^verbatim>\<open>get\<close> calls of the dict run in the order written; the first error is
  raised.
\<close>

definition default_url :: string where
  "default_url = ''https://ihkreddy.atlassian.net''"

definition env_profile :: "world \<Rightarrow> credentials" where
  "env_profile w =
     \<lparr>cred_url = Some (case map_of (environ w) ''JIRA_URL'' of None \<Rightarrow> default_url | Some v \<Rightarrow> v),
      cred_email = map_of (environ w) ''JIRA_EMAIL'',
      cred_token = map_of (environ w) ''JIRA_API_TOKEN''\<rparr>"

definition get_profile :: "jira_config \<Rightarrow> string option \<Rightarrow> credentials io" where
  "get_profile self profile_name =
     (if file_exists self then
        then_do (case profile_name of
                   None \<Rightarrow> lift (default_profile_name self)
                 | Some n \<Rightarrow> ret n) (\<lambda>name.
        if has_profile self name
        then then_do (lift (section_get self name ''url'')) (\<lambda>u.
             then_do (lift (section_get self name ''email'')) (\<lambda>e.
             then_do (lift (section_get self name ''token'')) (\<lambda>t.
             ret \<lparr>cred_url = u, cred_email = e, cred_token = t\<rparr>)))
        else then_do (say (MsgProfileNotFound name)) (\<lambda>_ w. ret (env_profile w) w))
      else (\<lambda>w. ret (env_profile w) w))"

text \<open>
  \<^verbatim>\<open>
  def validate_profile(self, credentials):
      required = ['url', 'email', 'token']
      for key in required:
          if not credentials.get(key):
              print(f"Missing {key} in configuration")
              return False
      return True
  \<close>
  \<^verbatim>\<open>not v\<close> holds of \<^verbatim>\<open>None\<close> and of the empty string.
\<close>

definition unset :: "string option \<Rightarrow> bool" where
  "unset v = (v = None \<or> v = Some [])"

definition validate_profile :: "credentials \<Rightarrow> bool io" where
  "validate_profile credentials =
     (if unset (cred_url credentials) then then_do (say (MsgMissing ''url'')) (\<lambda>_. ret False)
      else if unset (cred_email credentials) then then_do (say (MsgMissing ''email'')) (\<lambda>_. ret False)
      else if unset (cred_token credentials) then then_do (say (MsgMissing ''token'')) (\<lambda>_. ret False)
      else ret True)"

text \<open>
  \<^verbatim>\<open>
  def get_config(profile=None):
      config = JiraConfig()
      credentials = config.get_profile(profile)
      if not config.validate_profile(credentials):
          print(...)
          exit(1)
      return credentials
  \<close>
\<close>

definition get_config :: "string option \<Rightarrow> credentials io" where
  "get_config profile =
     then_do JiraConfig (\<lambda>config.
     then_do (get_profile config profile) (\<lambda>credentials.
     then_do (validate_profile credentials) (\<lambda>valid.
     if \<not> valid then then_do (say MsgSetupHelp) (\<lambda>_. sys_exit 1)
     else ret credentials)))"

subsection \<open>The resolution order, stated on its own\<close>

text \<open>
  The credentials as the resolution order gives them, written from the parsed file
  and the environment alone, apart from \<^verbatim>\<open>get_profile\<close>. The profile asked for is
  the one named, else the \<^verbatim>\<open>default_profile\<close> of \<^verbatim>\<open>DEFAULT\<close>, else \<^verbatim>\<open>ihkreddy\<close>.
\<close>

definition asked_profile :: "jira_config \<Rightarrow> string option \<Rightarrow> exn + string" where
  "asked_profile config prof =
     (case prof of
        Some n \<Rightarrow> Inr n
      | None \<Rightarrow> (case map_of (defaults config) ''default_profile'' of
                   None \<Rightarrow> Inr ''ihkreddy''
                 | Some r \<Rightarrow> r))"

definition in_file :: "jira_config \<Rightarrow> string \<Rightarrow> bool" where
  "in_file config name = (name = ''DEFAULT'' \<or> name \<in> set (map fst (sections config)))"

text \<open>
  A field of a profile of the file: the section's own option, behind it the one of
  \<^verbatim>\<open>DEFAULT\<close>; an error of \<^verbatim>\<open>get\<close> is the field's error.
\<close>

definition own_options :: "jira_config \<Rightarrow> string \<Rightarrow> (string \<times> (exn + string)) list" where
  "own_options config name =
     (case map_of (sections config) name of None \<Rightarrow> [] | Some opts \<Rightarrow> opts)"

definition field_of :: "jira_config \<Rightarrow> string \<Rightarrow> string \<Rightarrow> exn + string option" where
  "field_of config name opt =
     (case map_of (own_options config name @ defaults config) opt of
        None \<Rightarrow> Inr None
      | Some (Inl e) \<Rightarrow> Inl e
      | Some (Inr v) \<Rightarrow> Inr (Some v))"

text \<open>All three fields from the section, and no environment variable.\<close>

definition from_section :: "jira_config \<Rightarrow> string \<Rightarrow> exn + credentials" where
  "from_section config name =
     (case field_of config name ''url'' of
        Inl e \<Rightarrow> Inl e
      | Inr u \<Rightarrow>
          (case field_of config name ''email'' of
             Inl e \<Rightarrow> Inl e
           | Inr m \<Rightarrow>
               (case field_of config name ''token'' of
                  Inl e \<Rightarrow> Inl e
                | Inr t \<Rightarrow> Inr \<lparr>cred_url = u, cred_email = m, cred_token = t\<rparr>)))"

text \<open>All three fields from the environment, the URL with its default.\<close>

definition from_environment :: "(string \<times> string) list \<Rightarrow> credentials" where
  "from_environment env =
     \<lparr>cred_url = (case map_of env ''JIRA_URL'' of
                    None \<Rightarrow> Some ''https://ihkreddy.atlassian.net''
                  | Some v \<Rightarrow> Some v),
      cred_email = map_of env ''JIRA_EMAIL'',
      cred_token = map_of env ''JIRA_API_TOKEN''\<rparr>"

definition resolved :: "jira_config \<Rightarrow> string option \<Rightarrow> (string \<times> string) list \<Rightarrow> exn + credentials" where
  "resolved config prof env =
     (if file_exists config then
        (case asked_profile config prof of
           Inl e \<Rightarrow> Inl e
         | Inr name \<Rightarrow>
             if in_file config name then from_section config name
             else Inr (from_environment env))
      else Inr (from_environment env))"

text \<open>
  Whether the file settles the outcome: it exists, and the profile asked for is in
  it or its name cannot be read. Otherwise the environment is read.
\<close>

definition from_file :: "jira_config \<Rightarrow> string option \<Rightarrow> bool" where
  "from_file config prof =
     (file_exists config \<and>
      (case asked_profile config prof of Inl e \<Rightarrow> True | Inr name \<Rightarrow> in_file config name))"

text \<open>A field is missing when it is \<^verbatim>\<open>None\<close> or empty; the first such field, in the order checked.\<close>

definition missing :: "string option \<Rightarrow> bool" where
  "missing v = (case v of None \<Rightarrow> True | Some s \<Rightarrow> s = [])"

definition first_missing :: "credentials \<Rightarrow> string option" where
  "first_missing c =
     (if missing (cred_url c) then Some ''url''
      else if missing (cred_email c) then Some ''email''
      else if missing (cred_token c) then Some ''token''
      else None)"

definition complete :: "credentials \<Rightarrow> bool" where
  "complete c = (\<not> missing (cred_url c) \<and> \<not> missing (cred_email c) \<and> \<not> missing (cred_token c))"

section \<open>The HTTP session\<close>

text \<open>
  \<^verbatim>\<open>JiraClient\<close>: the base URL and the session's authentication and headers
  (fetch-ticket.py, lines 29 to 40; start-work.py, lines 32 to 46).
\<close>

record client =
  base_url :: string
  session_auth :: "string \<times> string"
  session_headers :: "(string \<times> string) list"

text \<open>
  \<^verbatim>\<open>self.session.get(url, params=...)\<close> and \<^verbatim>\<open>self.session.post(url, json=...)\<close>:
  the request is sent, and the tracker's reply is a response or a transport failure,
  raised as a \<open>RequestException\<close>.
\<close>

definition send :: "request \<Rightarrow> response io" where
  "send req =
     then_do (emit (Sent req)) (\<lambda>_ w.
       case server w req of
         Inl failure \<Rightarrow> raise (RequestException failure) w
       | Inr resp \<Rightarrow> ret resp w)"

definition get_request :: "client \<Rightarrow> string \<Rightarrow> (string \<times> string) list \<Rightarrow> request" where
  "get_request self u ps =
     \<lparr>req_method = GET, url = u, params = ps, payload = None,
      auth = session_auth self, headers = session_headers self\<rparr>"

definition post_request :: "client \<Rightarrow> string \<Rightarrow> json \<Rightarrow> request" where
  "post_request self u data =
     \<lparr>req_method = POST, url = u, params = [], payload = Some data,
      auth = session_auth self, headers = session_headers self\<rparr>"

definition session_get :: "client \<Rightarrow> string \<Rightarrow> (string \<times> string) list \<Rightarrow> response io" where
  "session_get self u ps = send (get_request self u ps)"

definition session_post :: "client \<Rightarrow> string \<Rightarrow> json \<Rightarrow> response io" where
  "session_post self u data = send (post_request self u data)"

text \<open>\<^verbatim>\<open>response.raise_for_status()\<close>: an \<open>HTTPError\<close> for a status from 400 to 599.\<close>

fun raise_for_status :: "response \<Rightarrow> exn + unit" where
  "raise_for_status (Response status body) =
     (if 400 \<le> status \<and> status < 600 then Inl (HTTPError status) else Inr ())"

text \<open>\<^verbatim>\<open>response.json()\<close>.\<close>

fun response_json :: "response \<Rightarrow> exn + json" where
  "response_json (Response status None) = Inl JSONDecodeError"
| "response_json (Response status (Some j)) = Inr j"

text \<open>
  A request that failed: no response at all, or one that \<^verbatim>\<open>raise_for_status\<close> rejects.
\<close>

definition http_failure :: "string + response \<Rightarrow> bool" where
  "http_failure reply =
     (case reply of
        Inl failure \<Rightarrow> True
      | Inr (Response status body) \<Rightarrow> 400 \<le> status \<and> status < 600)"

definition issue_url :: "client \<Rightarrow> string \<Rightarrow> string" where
  "issue_url self issue_key = base_url self @ ''/rest/api/3/issue/'' @ issue_key"

definition transitions_url :: "client \<Rightarrow> string \<Rightarrow> string" where
  "transitions_url self issue_key = issue_url self issue_key @ ''/transitions''"

section \<open>fetch-ticket.py: the client\<close>

definition issue_fields :: "(string \<times> string) list" where
  "issue_fields =
     [(''fields'',
       ''summary,description,status,priority,assignee,reporter,issuetype,created,updated,comment,subtasks,parent'')]"

text \<open>
  \<^verbatim>\<open>
  def get_issue(self, issue_key):
      url = f"{self.base_url}/rest/api/3/issue/{issue_key}"
      params = {'fields': '...'}
      try:
          response = self.session.get(url, params=params)
          response.raise_for_status()
          return response.json()
      except requests.exceptions.HTTPError as e:
          if e.response.status_code == 401:   print("Authentication failed. ...")
          elif e.response.status_code == 404: print(f"Ticket {issue_key} not found")
          else:                               print(f"HTTP Error: {e}")
          sys.exit(1)
      except requests.exceptions.RequestException as e:
          print(f"Error connecting to Jira: {e}")
          sys.exit(1)
  \<close>
\<close>

definition ft_get_issue :: "client \<Rightarrow> string \<Rightarrow> json io" where
  "ft_get_issue self issue_key w =
     (case then_do (session_get self (issue_url self issue_key) issue_fields) (\<lambda>response.
             then_do (lift (raise_for_status response)) (\<lambda>_.
             lift (response_json response))) w of
        (Inr issue, w') \<Rightarrow> (Inr issue, w')
      | (Inl (HTTPError status), w') \<Rightarrow>
          then_do (say (if status = 401 then MsgAuthFailed
                        else if status = 404 then MsgTicketNotFound issue_key
                        else MsgHttpError (HTTPError status)))
            (\<lambda>_. sys_exit 1) w'
      | (Inl e, w') \<Rightarrow>
          if is_RequestException e
          then then_do (say (MsgConnectError e)) (\<lambda>_. sys_exit 1) w'
          else (Inl e, w'))"

text \<open>
  \<^verbatim>\<open>
  def get_transitions(self, issue_key):
      url = f"{self.base_url}/rest/api/3/issue/{issue_key}/transitions"
      try:
          response = self.session.get(url)
          response.raise_for_status()
          return response.json().get('transitions', [])
      except:
          return []
  \<close>
  The bare \<^verbatim>\<open>except\<close> catches every exception.
\<close>

definition ft_get_transitions :: "client \<Rightarrow> string \<Rightarrow> json io" where
  "ft_get_transitions self issue_key w =
     (case then_do (session_get self (transitions_url self issue_key) []) (\<lambda>response.
             then_do (lift (raise_for_status response)) (\<lambda>_.
             then_do (lift (response_json response)) (\<lambda>body.
             lift (dict_get body ''transitions'' (JArr []))))) w of
        (Inr transitions, w') \<Rightarrow> (Inr transitions, w')
      | (Inl e, w') \<Rightarrow> (Inr (JArr []), w'))"

section \<open>start-work.py: the client\<close>

text \<open>
  \<^verbatim>\<open>
  def get_issue(self, issue_key):
      url = f"{self.base_url}/rest/api/3/issue/{issue_key}"
      response = self.session.get(url)
      response.raise_for_status()
      return response.json()
  \<close>
\<close>

definition sw_get_issue :: "client \<Rightarrow> string \<Rightarrow> json io" where
  "sw_get_issue self issue_key =
     then_do (session_get self (issue_url self issue_key) []) (\<lambda>response.
     then_do (lift (raise_for_status response)) (\<lambda>_.
     lift (response_json response)))"

text \<open>
  \<^verbatim>\<open>
  def get_transitions(self, issue_key):
      url = f"{self.base_url}/rest/api/3/issue/{issue_key}/transitions"
      response = self.session.get(url)
      response.raise_for_status()
      return response.json().get('transitions', [])
  \<close>
\<close>

definition sw_get_transitions :: "client \<Rightarrow> string \<Rightarrow> json io" where
  "sw_get_transitions self issue_key =
     then_do (session_get self (transitions_url self issue_key) []) (\<lambda>response.
     then_do (lift (raise_for_status response)) (\<lambda>_.
     then_do (lift (response_json response)) (\<lambda>body.
     lift (dict_get body ''transitions'' (JArr [])))))"

text \<open>
  The loop of \<^verbatim>\<open>transition_issue\<close> (lines 66 to 70); \<^verbatim>\<open>None\<close> when no name matches.
  \<^verbatim>\<open>
  transition_id = None
  for trans in transitions:
      if trans['name'].lower() == transition_name.lower():
          transition_id = trans['id']
          break
  \<close>
\<close>

fun find_transition :: "json list \<Rightarrow> string \<Rightarrow> exn + json" where
  "find_transition [] transition_name = Inr JNull"
| "find_transition (transition # rest) transition_name =
     (case getitem transition ''name'' of
        Inl e \<Rightarrow> Inl e
      | Inr name \<Rightarrow>
          (case str_lower name of
             Inl e \<Rightarrow> Inl e
           | Inr lowered \<Rightarrow>
               if lowered = py_lower transition_name then getitem transition ''id''
               else find_transition rest transition_name))"

text \<open>
  \<^verbatim>\<open>
  def transition_issue(self, issue_key, transition_name):
      transitions = self.get_transitions(issue_key)
      ... the loop ...
      if not transition_id:
          print(f"Transition '{transition_name}' not available")
          return False
      url = f"{self.base_url}/rest/api/3/issue/{issue_key}/transitions"
      data = {'transition': {'id': transition_id}}
      response = self.session.post(url, json=data)
      response.raise_for_status()
      return True
  \<close>
\<close>

definition transition_issue :: "client \<Rightarrow> string \<Rightarrow> string \<Rightarrow> bool io" where
  "transition_issue self issue_key transition_name =
     then_do (sw_get_transitions self issue_key) (\<lambda>transitions.
     then_do (lift (py_iter transitions)) (\<lambda>items.
     then_do (lift (find_transition items transition_name)) (\<lambda>transition_id.
     if \<not> truthy transition_id
     then then_do (say (MsgTransitionNotAvailable transition_name)) (\<lambda>_. ret False)
     else then_do (session_post self (transitions_url self issue_key)
                     (JObj [(''transition'', JObj [(''id'', transition_id)])])) (\<lambda>response.
          then_do (lift (raise_for_status response)) (\<lambda>_.
          ret True)))))"

section \<open>start-work.py: branches\<close>










section \<open>start-work.py as a script\<close>

text \<open>
  The interpreter compiles the whole file before it runs its first statement. In
  \<^verbatim>\<open>main\<close> two calls are never closed:
  \<^verbatim>\<open>
  224      parser.add_argument('--no-comment', action='store_true',
  225      parser.add_argument('--profile', '-p', help='Jira profile to use (from .jira-config)')
  ...
  235          client = JiraClient(args.profile
  236          client = JiraClient()
  \<close>
  so the compiler raises \<open>SyntaxError\<close>, and the interpreter prints it and exits with
  code 1. No statement of the file runs, whatever the command line: nothing is
  imported, nothing is printed on the standard output, no request is sent, no
  command is run.
\<close>

definition start_work :: "string list \<Rightarrow> unit io" where
  "start_work command_line = raise SyntaxError"

section \<open>Sample inputs\<close>

text \<open>
  A repository on its main branch, a tracker that cannot be reached, and a world
  with one config file in the working directory.
\<close>

definition sample_repo :: git_state where
  "sample_repo =
     \<lparr>git_installed = True, is_repo = True, branches = [''main''],
      head_branch = Some ''main'', ref_ok = (\<lambda>name. True),
      checkout_refused = (\<lambda>name. False)\<rparr>"

definition offline :: "request \<Rightarrow> string + response" where
  "offline req = Inl ''connection refused''"

definition sample_world ::
  "config_file \<Rightarrow> (string \<times> string) list \<Rightarrow> (request \<Rightarrow> string + response) \<Rightarrow> world" where
  "sample_world cfg env srv =
     \<lparr>cwd_config = cfg, script_config = NoFile, environ = env, server = srv,
      repo = sample_repo, trace = []\<rparr>"

text \<open>A client, a tracker that knows no ticket, and one that answers every request with 500.\<close>

definition sample_client :: client where
  "sample_client =
     \<lparr>base_url = ''https://acme.atlassian.net'', session_auth = (''dev@acme.io'', ''s3cret''),
      session_headers = [(''Accept'', ''application/json'')]\<rparr>"

definition not_found :: "request \<Rightarrow> string + response" where
  "not_found req = Inr (Response 404 None)"

definition server_error :: "request \<Rightarrow> string + response" where
  "server_error req = Inr (Response 500 None)"

text \<open>A profile with all three fields, and one without an email.\<close>

definition full_config :: config_file where
  "full_config =
     Parsed [(''default_profile'', Inr ''work'')]
       [(''work'', [(''url'', Inr ''https://acme.atlassian.net/''),
                    (''email'', Inr ''dev@acme.io''),
                    (''token'', Inr ''s3cret'')])]"

definition partial_config :: config_file where
  "partial_config =
     Parsed [(''default_profile'', Inr ''work'')]
       [(''work'', [(''url'', Inr ''https://acme.atlassian.net/''),
                    (''token'', Inr ''s3cret'')])]"

definition sample_env :: "(string \<times> string) list" where
  "sample_env = [(''JIRA_EMAIL'', ''dev@acme.io''), (''JIRA_API_TOKEN'', ''s3cret'')]"

text \<open>
  A description of two paragraphs; the first text node carries a \<^verbatim>\<open>content\<close> of its
  own, which is not read.
\<close>

definition sample_adf :: json where
  "sample_adf =
     JObj [(''type'', JStr ''doc''), (''version'', JNum 1),
       (''content'', JArr [
          JObj [(''type'', JStr ''paragraph''),
            (''content'', JArr [
               JObj [(''type'', JStr ''text''), (''text'', JStr ''Login''),
                     (''content'', JArr [JObj [(''type'', JStr ''text''), (''text'', JStr ''hidden'')]])],
               JObj [(''type'', JStr ''hardBreak'')],
               JObj [(''type'', JStr ''text''), (''text'', JStr ''fails'')]])],
          JObj [(''type'', JStr ''paragraph''),
            (''content'', JArr [
               JObj [(''type'', JStr ''text''), (''text'', JStr ''on Safari'')]])]])]"

text \<open>A ticket, and a tracker that serves it and answers every other request with 500.\<close>

definition sample_issue :: json where
  "sample_issue =
     JObj [(''key'', JStr ''PROJ-7''),
       (''fields'',
         JObj [(''summary'', JStr ''Fix login_page crash''),
               (''issuetype'', JObj [(''name'', JStr ''Bug'')]),
               (''status'', JObj [(''name'', JStr ''To Do'')]),
               (''description'', sample_adf)])]"

definition flaky_tracker :: "request \<Rightarrow> string + response" where
  "flaky_tracker req =
     (if req_method req = GET \<and> url req = ''https://acme.atlassian.net/rest/api/3/issue/PROJ-7''
      then Inr (Response 200 (Some sample_issue))
      else Inr (Response 500 None))"



section \<open>Properties of slugify\<close>

lemma lower_char_word:
  assumes "is_word (lower_char c) \<or> is_hyphen (lower_char c)"
  shows "slug_char (lower_char c)"
proof (cases "is_upper c")
  case True
  then have "ord (lower_char c) = ord c + 32"
    by (simp add: lower_char_def ord_def is_upper_def)
  with True show ?thesis
    by (simp add: slug_char_def is_lower_def is_upper_def)
next
  case False
  with assms show ?thesis
    by (auto simp: lower_char_def slug_char_def is_word_def)
qed

lemma set_collapse_seps:
  "set (collapse_seps t) \<subseteq> {c \<in> set t. \<not> is_sep c} \<union> {CHR ''-''}"
proof (induction t rule: collapse_seps.induct)
  case 1
  show ?case by simp
next
  case (2 c cs)
  show ?case
  proof (cases "is_sep c")
    case True
    have "set (dropWhile is_sep cs) \<subseteq> set cs"
      by (rule set_dropWhileD [THEN subsetI])
    with 2(1) [OF True] True show ?thesis by auto
  next
    case False
    with 2(2) [OF False] show ?thesis by auto
  qed
qed

lemma strip_hyphens_prefix:
  "\<exists>zs. dropWhile is_hyphen t = strip_hyphens t @ zs"
proof -
  let ?u = "dropWhile is_hyphen t"
  have "rev (rev ?u) = rev (takeWhile is_hyphen (rev ?u) @ dropWhile is_hyphen (rev ?u))"
    by (simp only: takeWhile_dropWhile_id)
  then have "?u = strip_hyphens t @ rev (takeWhile is_hyphen (rev ?u))"
    by (simp only: rev_rev_ident rev_append strip_hyphens_def)
  then show ?thesis by blast
qed

lemma set_strip_hyphens: "set (strip_hyphens t) \<subseteq> set t"
proof -
  obtain zs where "dropWhile is_hyphen t = strip_hyphens t @ zs"
    using strip_hyphens_prefix by blast
  then have "set (strip_hyphens t) \<subseteq> set (dropWhile is_hyphen t)"
    by simp
  also have "\<dots> \<subseteq> set t"
    by (rule set_dropWhileD [THEN subsetI])
  finally show ?thesis .
qed

lemma hd_strip_hyphens:
  assumes "strip_hyphens t \<noteq> []"
  shows "\<not> is_hyphen (hd (strip_hyphens t))"
proof -
  obtain zs where eq: "dropWhile is_hyphen t = strip_hyphens t @ zs"
    using strip_hyphens_prefix by blast
  with assms have ne: "dropWhile is_hyphen t \<noteq> []"
    by auto
  from eq assms have "hd (strip_hyphens t) = hd (dropWhile is_hyphen t)"
    by simp
  with hd_dropWhile [OF ne] show ?thesis by simp
qed

lemma last_strip_hyphens:
  assumes "strip_hyphens t \<noteq> []"
  shows "\<not> is_hyphen (last (strip_hyphens t))"
proof -
  let ?v = "dropWhile is_hyphen (rev (dropWhile is_hyphen t))"
  from assms have ne: "?v \<noteq> []"
    by (simp add: strip_hyphens_def)
  have "last (strip_hyphens t) = hd ?v"
    using ne by (simp add: strip_hyphens_def last_rev)
  with hd_dropWhile [OF ne] show ?thesis by simp
qed

lemma slugify_chars:
  assumes "c \<in> set (slugify S)"
  shows "slug_char c"
proof -
  from assms have "c \<in> set (strip_hyphens (collapse_seps (remove_special (py_lower S))))"
    by (auto simp: slugify_def dest: in_set_takeD)
  then have "c \<in> set (collapse_seps (remove_special (py_lower S)))"
    using set_strip_hyphens by blast
  then have "c \<in> set (remove_special (py_lower S)) \<or> c = CHR ''-''"
    using set_collapse_seps by blast
  then show ?thesis
  proof
    assume "c \<in> set (remove_special (py_lower S))"
    then obtain d where "c = lower_char d"
      and "is_word c \<or> is_space c \<or> is_hyphen c"
      by (auto simp: remove_special_def py_lower_def)
    moreover have "c \<in> set (collapse_seps (remove_special (py_lower S)))"
      by fact
    then have "\<not> is_space c \<or> c = CHR ''-''"
      using set_collapse_seps [of "remove_special (py_lower S)"]
      by (auto simp: is_sep_def)
    ultimately show ?thesis
      using lower_char_word [of d] by (auto simp: slug_char_def is_hyphen_def)
  next
    assume "c = CHR ''-''"
    then show ?thesis by (simp add: slug_char_def is_hyphen_def)
  qed
qed

text \<open>
  C3, as amended. For every ASCII string \<open>S\<close>, \<open>slugify S\<close> has no upper-case letter and
  only characters of \<^verbatim>\<open>[a-z0-9_-]\<close> (the underscore belongs to \<^verbatim>\<open>\w\<close> and is kept),
  is at most 50 characters long and does not start with a hyphen; it does not end
  with a hyphen whenever the trimmed text, before the cut at 50 characters, is at
  most 50 characters long.
\<close>

theorem slugify_shape:
  assumes "\<forall>c\<in>set S. is_ascii c"
  shows "(\<forall>c\<in>set (slugify S). slug_char c \<and> \<not> is_upper c)
       \<and> length (slugify S) \<le> 50
       \<and> (slugify S \<noteq> [] \<longrightarrow> \<not> is_hyphen (hd (slugify S)))
       \<and> (length (strip_hyphens (collapse_seps (remove_special (py_lower S)))) \<le> 50
            \<longrightarrow> slugify S \<noteq> [] \<longrightarrow> \<not> is_hyphen (last (slugify S)))"
proof (intro conjI ballI impI)
  fix c assume "c \<in> set (slugify S)"
  then show "slug_char c" by (rule slugify_chars)
next
  fix c assume "c \<in> set (slugify S)"
  then have "slug_char c" by (rule slugify_chars)
  then show "\<not> is_upper c"
    by (auto simp: slug_char_def is_upper_def is_lower_def is_digit_def is_hyphen_def ord_def)
next
  show "length (slugify S) \<le> 50" by (simp add: slugify_def)
next
  assume "slugify S \<noteq> []"
  then have "strip_hyphens (collapse_seps (remove_special (py_lower S))) \<noteq> []"
    by (auto simp: slugify_def)
  then show "\<not> is_hyphen (hd (slugify S))"
    using hd_strip_hyphens by (simp add: slugify_def)
next
  assume short: "length (strip_hyphens (collapse_seps (remove_special (py_lower S)))) \<le> 50"
    and "slugify S \<noteq> []"
  then have "strip_hyphens (collapse_seps (remove_special (py_lower S))) \<noteq> []"
    by (auto simp: slugify_def)
  then show "\<not> is_hyphen (last (slugify S))"
    using last_strip_hyphens short by (simp add: slugify_def)
qed

theorem slugify_shape_witness:
  "slugify ''Fix:  Login_Page -- crash!'' = ''fix-login_page-crash''
   \<and> list_all (\<lambda>c. slug_char c \<and> \<not> is_upper c) (slugify ''Fix:  Login_Page -- crash!'')
   \<and> length (slugify ''Fix:  Login_Page -- crash!'') \<le> 50
   \<and> \<not> is_hyphen (hd (slugify ''Fix:  Login_Page -- crash!''))
   \<and> \<not> is_hyphen (last (slugify ''Fix:  Login_Page -- crash!''))"
proof -
  have ascii: "\<forall>c\<in>set ''Fix:  Login_Page -- crash!''. is_ascii c"
    by (simp add: is_ascii_def ord_def)
  have val: "slugify ''Fix:  Login_Page -- crash!'' = ''fix-login_page-crash''"
    by code_simp
  have short: "length (strip_hyphens (collapse_seps (remove_special
      (py_lower ''Fix:  Login_Page -- crash!'')))) \<le> 50"
    by code_simp
  from slugify_shape [OF ascii] short val show ?thesis
    by (simp add: list_all_iff)
qed

text \<open>
  C3 as stated fails: an underscore of the summary survives, and it is not one of
  \<^verbatim>\<open>[a-z0-9-]\<close>.
\<close>

theorem slugify_keeps_underscore:
  "slugify ''fix user_id lookup'' = ''fix-user_id-lookup''
   \<and> CHR ''_'' \<in> set (slugify ''fix user_id lookup'')
   \<and> \<not> spec_slug_char (CHR ''_'')"
proof -
  have "slugify ''fix user_id lookup'' = ''fix-user_id-lookup''"
    by code_simp
  moreover have "\<not> spec_slug_char (CHR ''_'')"
    by (simp add: spec_slug_char_def is_lower_def is_digit_def is_hyphen_def ord_def)
  ultimately show ?thesis by simp
qed

text \<open>
  C4 at the summary \<^verbatim>\<open>Allow operators to rotate the signing key without a restart\<close>:
  the trimmed text has a hyphen as its 50th character, the cut leaves it at the end,
  and a second application trims it away.
\<close>

theorem slugify_not_idempotent:
  "slugify ''Allow operators to rotate the signing key without a restart''
     = ''allow-operators-to-rotate-the-signing-key-without-''
   \<and> slugify (slugify ''Allow operators to rotate the signing key without a restart'')
     = ''allow-operators-to-rotate-the-signing-key-without''
   \<and> slugify (slugify ''Allow operators to rotate the signing key without a restart'')
     \<noteq> slugify ''Allow operators to rotate the signing key without a restart''"
proof -
  have first: "slugify ''Allow operators to rotate the signing key without a restart''
     = ''allow-operators-to-rotate-the-signing-key-without-''"
    by code_simp
  have second: "slugify ''allow-operators-to-rotate-the-signing-key-without-''
     = ''allow-operators-to-rotate-the-signing-key-without''"
    by code_simp
  from first second show ?thesis by simp
qed

section \<open>Properties of extract_text_from_adf\<close>

lemma strings_of_JStr: "strings_of (map (\<lambda>n. JStr (f n)) ns) = Inr (map f ns)"
  by (induction ns) auto

lemma text_part_of:
  assumes "adf_tree (JObj node)" and "map_of node ''type'' = Some (JStr ''text'')"
  shows "(case map_of node ''text'' of None \<Rightarrow> JStr [] | Some v \<Rightarrow> v) = JStr (text_of (JObj node))"
  using assms by (auto split: option.splits json.splits)

lemma extract_walk:
  "adf_tree n \<Longrightarrow>
     extract_node n parts = Inr (parts @ map (\<lambda>t. JStr (text_of t)) (text_nodes n))"
  "list_all adf_tree cs \<Longrightarrow>
     extract_children cs parts = Inr (parts @ map (\<lambda>t. JStr (text_of t)) (concat (map text_nodes cs)))"
proof (induction n parts and cs parts rule: extract_node_extract_children.induct)
  case (1 node text_parts)
  show ?case
  proof (cases "map_of node ''type'' = Some (JStr ''text'')")
    case True
    with text_part_of [OF "1.prems" True] show ?thesis by simp
  next
    case False
    show ?thesis
    proof (cases "map_of node ''content''")
      case None
      with False show ?thesis by simp
    next
      case (Some content)
      with False "1.prems" obtain children where c: "content = JArr children"
        and wf: "list_all adf_tree children"
        by (auto split: json.splits)
      from "1.IH" [OF False Some c wf] False Some c show ?thesis by simp
    qed
  qed
qed auto

lemma ft_extract_walk:
  "adf_tree n \<Longrightarrow>
     ft_extract_node n parts = Inr (parts @ map (\<lambda>t. JStr (text_of t)) (text_nodes n))"
  "list_all adf_tree cs \<Longrightarrow>
     ft_extract_children cs parts = Inr (parts @ map (\<lambda>t. JStr (text_of t)) (concat (map text_nodes cs)))"
proof (induction n parts and cs parts rule: ft_extract_node_ft_extract_children.induct)
  case (1 node text_parts)
  show ?case
  proof (cases "map_of node ''type'' = Some (JStr ''text'')")
    case True
    with text_part_of [OF "1.prems" True] show ?thesis by simp
  next
    case False
    show ?thesis
    proof (cases "map_of node ''content''")
      case None
      with False show ?thesis by simp
    next
      case (Some content)
      with False "1.prems" obtain children where c: "content = JArr children"
        and wf: "list_all adf_tree children"
        by (auto split: json.splits)
      from "1.IH" [OF False Some c wf] False Some c show ?thesis by simp
    qed
  qed
qed auto

text \<open>
  C10. For a document tree, both scripts' \<^verbatim>\<open>extract_text_from_adf\<close> return the texts
  of its text nodes, in depth-first document order, joined by single spaces. The
  text nodes are those reached without passing through a text node: a text node
  yields its own text only, whatever its \<^verbatim>\<open>content\<close>. A tree without text nodes
  yields the empty string.
\<close>

theorem extract_text_from_adf_text_nodes:
  assumes "adf_tree adf"
  shows "extract_text_from_adf adf = Inr (join '' '' (map text_of (text_nodes adf)))
       \<and> ft_extract_text_from_adf py_str adf = Inr (join '' '' (map text_of (text_nodes adf)))
       \<and> (\<forall>node. adf = JObj node \<and> map_of node ''type'' = Some (JStr ''text'')
             \<longrightarrow> extract_text_from_adf adf = Inr (text_of adf))
       \<and> (text_nodes adf = [] \<longrightarrow> extract_text_from_adf adf = Inr [])"
proof -
  have sw: "extract_text_from_adf adf = Inr (join '' '' (map text_of (text_nodes adf)))"
    using extract_walk(1) [OF assms, of "[]"]
    by (simp add: extract_text_from_adf_def py_join_def strings_of_JStr)
  from assms obtain node where "adf = JObj node"
    by (cases adf) auto
  then have ft: "ft_extract_text_from_adf py_str adf
      = Inr (join '' '' (map text_of (text_nodes adf)))"
    using ft_extract_walk(1) [OF assms, of "[]"]
    by (simp add: ft_extract_text_from_adf_def py_join_def strings_of_JStr)
  from sw ft show ?thesis by auto
qed

theorem extract_text_from_adf_text_nodes_witness:
  "adf_tree sample_adf
   \<and> extract_text_from_adf sample_adf = Inr ''Login fails on Safari''
   \<and> ft_extract_text_from_adf (\<lambda>v. []) sample_adf = Inr ''Login fails on Safari''
   \<and> map text_of (text_nodes sample_adf) = [''Login'', ''fails'', ''on Safari'']"
proof -
  have tree: "adf_tree sample_adf"
    by (simp add: sample_adf_def)
  have texts: "map text_of (text_nodes sample_adf) = [''Login'', ''fails'', ''on Safari'']"
    by (simp add: sample_adf_def)
  from extract_text_from_adf_text_nodes [OF tree, of "\<lambda>v. []"] tree texts
  show ?thesis by simp
qed

section \<open>Properties of get_config\<close>

lemma section_get_field_of: "section_get config name opt = field_of config name opt"
  by (simp add: section_get_def field_of_def own_options_def map_add_def
      split: option.splits sum.splits)

lemma has_profile_in_file: "has_profile config name = in_file config name"
  by (simp add: has_profile_def in_file_def)

lemma env_profile_from_environment: "env_profile w = from_environment (environ w)"
  by (simp add: env_profile_def from_environment_def default_url_def split: option.splits)

lemma unset_missing: "unset v = missing v"
  by (simp add: unset_def missing_def split: option.splits)

lemma default_profile_name_asked: "default_profile_name config = asked_profile config None"
  by (simp add: default_profile_name_def asked_profile_def split: option.splits sum.splits)

text \<open>
  \<^verbatim>\<open>get_profile\<close> returns or raises what the resolution order says, and prints at
  most that the profile was not found.
\<close>

lemma get_profile_resolved:
  "get_profile config prof w =
     (resolved config prof (environ w),
      if file_exists config \<and> \<not> from_file config prof
      then w\<lparr>trace := trace w @
             [Print (MsgProfileNotFound (case asked_profile config prof of Inr n \<Rightarrow> n | Inl e \<Rightarrow> []))]\<rparr>
      else w)"
proof (cases "file_exists config")
  case False
  then show ?thesis
    by (simp add: get_profile_def resolved_def from_file_def ret_def env_profile_from_environment)
next
  case True
  show ?thesis
  proof (cases "asked_profile config prof")
    case (Inl e)
    with True show ?thesis
      by (cases prof)
        (simp_all add: get_profile_def resolved_def from_file_def then_do_def lift_def ret_def
          default_profile_name_asked asked_profile_def)
  next
    case (Inr name)
    then have run: "(case prof of None \<Rightarrow> lift (default_profile_name config) | Some n \<Rightarrow> ret n) w
        = (Inr name, w)"
      by (cases prof) (simp_all add: lift_def ret_def default_profile_name_asked asked_profile_def)
    show ?thesis
    proof (cases "in_file config name")
      case False
      with True Inr run show ?thesis
        by (simp add: get_profile_def resolved_def from_file_def then_do_def say_def emit_def
            ret_def has_profile_in_file env_profile_from_environment)
    next
      case found: True
      with True Inr run show ?thesis
        by (simp add: get_profile_def resolved_def from_file_def from_section_def then_do_def
            lift_def ret_def has_profile_in_file section_get_field_of split: sum.splits)
    qed
  qed
qed

lemma validate_profile_eq:
  "validate_profile c w =
     (case first_missing c of
        None \<Rightarrow> (Inr True, w)
      | Some field \<Rightarrow> (Inr False, w\<lparr>trace := trace w @ [Print (MsgMissing field)]\<rparr>))"
  by (simp add: validate_profile_def first_missing_def unset_missing then_do_def say_def emit_def
      ret_def)

lemma JiraConfig_eq:
  "JiraConfig w = (Inr config, w1) \<Longrightarrow>
     w1 = (if file_exists config then w else w\<lparr>trace := trace w @ [Print MsgConfigFileNotFound]\<rparr>)"
  by (auto simp: JiraConfig_def Let_def then_do_def say_def emit_def ret_def raise_def
      split: config_file.splits)

lemma get_config_raises:
  assumes "JiraConfig w = (Inl e, w1)"
  shows "get_config prof w = (Inl e, w1)"
  using assms by (simp add: get_config_def then_do_def)

lemma first_missing_None: "first_missing c = None \<longleftrightarrow> complete c"
  by (simp add: first_missing_def complete_def)

lemma get_config_eq:
  assumes "JiraConfig w = (Inr config, w1)"
  shows "get_config prof w =
     (case get_profile config prof w1 of
        (r, w2) \<Rightarrow>
          (case r of Inl e \<Rightarrow> (Inl e, w2) | Inr creds \<Rightarrow>
          (case first_missing creds of
             None \<Rightarrow> (Inr creds, w2)
           | Some field \<Rightarrow>
               (Inl (SystemExit 1),
                w2\<lparr>trace := trace w2 @ [Print (MsgMissing field), Print MsgSetupHelp]\<rparr>))))"
  using assms
  by (simp add: get_config_def then_do_def validate_profile_eq say_def emit_def
      ret_def raise_def sys_exit_def split: option.splits sum.splits prod.splits)

lemma resolved_env:
  "\<not> from_file config prof \<Longrightarrow> resolved config prof env = Inr (from_environment env)"
  by (auto simp: from_file_def resolved_def split: sum.splits)

text \<open>
  C8, as amended. When the config file exists and has the profile asked for,
  \<^verbatim>\<open>get_config\<close> takes all three fields from that section (and the \<^verbatim>\<open>DEFAULT\<close>
  section behind it) as \<^verbatim>\<open>get\<close> returns them, raising what \<^verbatim>\<open>get\<close> raises, and
  reads no environment variable for a field the section leaves unset; when there is
  no file, or no such profile in it, it takes the url from \<^verbatim>\<open>JIRA_URL\<close> (else the
  default URL), the email from \<^verbatim>\<open>JIRA_EMAIL\<close> and the token from
  \<^verbatim>\<open>JIRA_API_TOKEN\<close>. If one of url, email, token is then missing or empty, it
  prints the first such field and exits with code 1. What it returns is never
  partial.
\<close>

theorem get_config_resolution:
  assumes "JiraConfig w = (Inr config, w1)"
  shows "fst (get_config prof w) =
           (case resolved config prof (environ w) of
              Inl e \<Rightarrow> Inl e
            | Inr creds \<Rightarrow>
                (case first_missing creds of
                   None \<Rightarrow> Inr creds
                 | Some field \<Rightarrow> Inl (SystemExit 1)))
       \<and> (\<forall>creds field. resolved config prof (environ w) = Inr creds
             \<longrightarrow> first_missing creds = Some field
             \<longrightarrow> (\<exists>evs. trace (snd (get_config prof w))
                    = trace w @ evs @ [Print (MsgMissing field), Print MsgSetupHelp]))
       \<and> (\<forall>c w3. get_config prof w = (Inr c, w3) \<longrightarrow> complete c)"
proof (intro conjI allI impI)
  have env: "environ w1 = environ w"
    using JiraConfig_eq [OF assms] by simp
  show "fst (get_config prof w) =
           (case resolved config prof (environ w) of
              Inl e \<Rightarrow> Inl e
            | Inr creds \<Rightarrow>
                (case first_missing creds of
                   None \<Rightarrow> Inr creds
                 | Some field \<Rightarrow> Inl (SystemExit 1)))"
    by (simp add: get_config_eq [OF assms] get_profile_resolved env
        split: sum.splits option.splits)
  {
    fix creds field
    assume r: "resolved config prof (environ w) = Inr creds"
      and m: "first_missing creds = Some field"
    obtain evs1 where w1: "w1 = w\<lparr>trace := trace w @ evs1\<rparr>"
      using JiraConfig_eq [OF assms] by (cases "file_exists config") (auto intro: that [of "[]"])
    obtain evs2 where w2: "snd (get_profile config prof w1) = w1\<lparr>trace := trace w1 @ evs2\<rparr>"
      by (cases "file_exists config \<and> \<not> from_file config prof")
        (auto simp: get_profile_resolved intro: that [of "[]"])
    have "trace (snd (get_config prof w))
        = trace w @ (evs1 @ evs2) @ [Print (MsgMissing field), Print MsgSetupHelp]"
      using r m w2 unfolding w1
      by (simp add: get_config_eq [OF assms [unfolded w1]] get_profile_resolved)
    then show "\<exists>evs. trace (snd (get_config prof w))
        = trace w @ evs @ [Print (MsgMissing field), Print MsgSetupHelp]"
      by blast
  }
  {
    fix c w3
    assume ok: "get_config prof w = (Inr c, w3)"
    then show "complete c"
      by (auto simp: get_config_eq [OF assms] get_profile_resolved first_missing_None [symmetric]
          split: sum.splits option.splits)
  }
qed

theorem get_config_resolution_witness:
  "fst (get_config None (sample_world full_config [] offline)) =
     Inr \<lparr>cred_url = Some ''https://acme.atlassian.net/'', cred_email = Some ''dev@acme.io'',
          cred_token = Some ''s3cret''\<rparr>
   \<and> complete \<lparr>cred_url = Some ''https://acme.atlassian.net/'', cred_email = Some ''dev@acme.io'',
          cred_token = Some ''s3cret''\<rparr>
   \<and> fst (get_config None (sample_world NoFile sample_env offline)) =
     Inr \<lparr>cred_url = Some ''https://ihkreddy.atlassian.net'', cred_email = Some ''dev@acme.io'',
          cred_token = Some ''s3cret''\<rparr>"
proof -
  let ?w = "sample_world full_config [] offline"
  let ?config = "\<lparr>file_exists = True, defaults = [(''default_profile'', Inr ''work'')],
     sections = [(''work'', [(''url'', Inr ''https://acme.atlassian.net/''),
       (''email'', Inr ''dev@acme.io''), (''token'', Inr ''s3cret'')])]\<rparr>"
  let ?creds = "\<lparr>cred_url = Some ''https://acme.atlassian.net/'', cred_email = Some ''dev@acme.io'',
          cred_token = Some ''s3cret''\<rparr>"
  have jc: "JiraConfig ?w = (Inr ?config, ?w)"
    by (simp add: JiraConfig_def sample_world_def full_config_def ret_def)
  have r: "resolved ?config None (environ ?w) = Inr ?creds"
    by (simp add: resolved_def asked_profile_def in_file_def from_section_def field_of_def
        own_options_def)
  have m: "first_missing ?creds = None"
    by (simp add: first_missing_def missing_def)
  let ?v = "sample_world NoFile sample_env offline"
  let ?none = "\<lparr>file_exists = False, defaults = [], sections = []\<rparr>"
  let ?env = "\<lparr>cred_url = Some ''https://ihkreddy.atlassian.net'', cred_email = Some ''dev@acme.io'',
          cred_token = Some ''s3cret''\<rparr>"
  have jc': "JiraConfig ?v = (Inr ?none, ?v\<lparr>trace := [Print MsgConfigFileNotFound]\<rparr>)"
    by (simp add: JiraConfig_def sample_world_def then_do_def say_def emit_def ret_def)
  have r': "resolved ?none None (environ ?v) = Inr ?env"
    by (simp add: resolved_def from_environment_def sample_world_def sample_env_def)
  have m': "first_missing ?env = None"
    by (simp add: first_missing_def missing_def)
  from get_config_resolution [OF jc, of None] get_config_resolution [OF jc', of None] r m r' m'
  show ?thesis
    by (simp add: complete_def missing_def)
qed

text \<open>
  C8 as stated fails: the profile has no email, \<^verbatim>\<open>JIRA_EMAIL\<close> is set, and
  \<^verbatim>\<open>get_config\<close> exits instead of reading it.
\<close>

theorem get_config_no_field_fallback:
  "get_config (Some ''work'') (sample_world partial_config sample_env offline) =
     (Inl (SystemExit 1),
      (sample_world partial_config sample_env offline)
        \<lparr>trace := [Print (MsgMissing ''email''), Print MsgSetupHelp]\<rparr>)
   \<and> map_of (environ (sample_world partial_config sample_env offline)) ''JIRA_EMAIL''
       = Some ''dev@acme.io''"
  by (simp add: get_config_def JiraConfig_def sample_world_def partial_config_def sample_env_def
      get_profile_def has_profile_def section_get_def validate_profile_def unset_def
      then_do_def say_def emit_def ret_def raise_def lift_def sys_exit_def)

text \<open>
  C9. On the environment path (no config file, or no such profile in it) with
  \<^verbatim>\<open>JIRA_URL\<close> unset, \<^verbatim>\<open>get_profile\<close> returns the default URL, which is not empty,
  and the field \<^verbatim>\<open>get_config\<close> reports missing, if any, is the email or the token.
\<close>

theorem env_profile_default_url:
  assumes "JiraConfig w = (Inr config, w1)"
    and "\<not> from_file config prof"
    and "map_of (environ w) ''JIRA_URL'' = None"
  shows "(\<exists>w2. get_profile config prof w1 = (Inr (env_profile w), w2))
       \<and> cred_url (env_profile w) = Some ''https://ihkreddy.atlassian.net''
       \<and> \<not> unset (cred_url (env_profile w))
       \<and> (\<forall>r w3 field. get_config prof w = (r, w3)
             \<longrightarrow> Print (MsgMissing field) \<in> set (drop (length (trace w)) (trace w3))
             \<longrightarrow> field = ''email'' \<or> field = ''token'')"
proof (intro conjI allI impI)
  have env: "environ w1 = environ w"
    using JiraConfig_eq [OF assms(1)] by simp
  have res: "resolved config prof (environ w) = Inr (env_profile w)"
    using resolved_env [OF assms(2)] by (simp add: env_profile_from_environment)
  show "\<exists>w2. get_profile config prof w1 = (Inr (env_profile w), w2)"
    using res env by (simp add: get_profile_resolved)
  show url: "cred_url (env_profile w) = Some ''https://ihkreddy.atlassian.net''"
    using assms(3) by (simp add: env_profile_def default_url_def)
  then show set: "\<not> unset (cred_url (env_profile w))"
    by (simp add: unset_def)
  fix r w3 field
  assume run: "get_config prof w = (r, w3)"
    and printed: "Print (MsgMissing field) \<in> set (drop (length (trace w)) (trace w3))"
  from set have "first_missing (env_profile w) \<noteq> Some ''url''"
    by (simp add: first_missing_def unset_missing)
  moreover have "first_missing (env_profile w) = None
      \<or> first_missing (env_profile w) = Some ''url''
      \<or> first_missing (env_profile w) = Some ''email''
      \<or> first_missing (env_profile w) = Some ''token''"
    by (simp add: first_missing_def)
  ultimately show "field = ''email'' \<or> field = ''token''"
    using run printed assms(2) env res JiraConfig_eq [OF assms(1)]
    by (auto simp: get_config_eq [OF assms(1)] get_profile_resolved split: if_splits)
qed

theorem env_profile_default_url_witness:
  "cred_url (env_profile (sample_world NoFile [(''JIRA_API_TOKEN'', ''s3cret'')] offline))
     = Some ''https://ihkreddy.atlassian.net''
   \<and> get_config None (sample_world NoFile [(''JIRA_API_TOKEN'', ''s3cret'')] offline)
     = (Inl (SystemExit 1),
        (sample_world NoFile [(''JIRA_API_TOKEN'', ''s3cret'')] offline)
          \<lparr>trace := [Print MsgConfigFileNotFound, Print (MsgMissing ''email''), Print MsgSetupHelp]\<rparr>)"
proof -
  let ?w = "sample_world NoFile [(''JIRA_API_TOKEN'', ''s3cret'')] offline"
  let ?config = "\<lparr>file_exists = False, defaults = [], sections = []\<rparr>"
  have jc: "JiraConfig ?w = (Inr ?config, ?w\<lparr>trace := [Print MsgConfigFileNotFound]\<rparr>)"
    by (simp add: JiraConfig_def sample_world_def then_do_def say_def emit_def ret_def)
  have nf: "\<not> from_file ?config None"
    by (simp add: from_file_def)
  have no_url: "map_of (environ ?w) ''JIRA_URL'' = None"
    by (simp add: sample_world_def)
  have run: "get_config None ?w = (Inl (SystemExit 1),
      ?w\<lparr>trace := [Print MsgConfigFileNotFound, Print (MsgMissing ''email''), Print MsgSetupHelp]\<rparr>)"
    by (simp add: get_config_def JiraConfig_def sample_world_def get_profile_def env_profile_def
        validate_profile_def unset_def default_url_def then_do_def say_def emit_def ret_def
        raise_def sys_exit_def)
  from env_profile_default_url [OF jc nf no_url] run show ?thesis by simp
qed

section \<open>Properties of the two clients\<close>

lemmas io_defs = then_do_def ret_def raise_def lift_def say_def emit_def sys_exit_def
  try_except_def send_def session_get_def session_post_def

text \<open>
  C7, as amended. \<^verbatim>\<open>get_issue\<close> of fetch-ticket.py sends a GET with the fixed field
  list; on a status from 400 to 599 it prints the authentication message (401),
  the not-found message (404) or the raw error (any other) and exits with code 1;
  on any other status it returns the decoded body as it is. \<^verbatim>\<open>get_issue\<close> of
  start-work.py sends the GET without a field list, prints nothing, and raises the
  \<open>HTTPError\<close> to its caller; on success it too returns the decoded body as it is.
\<close>

theorem get_issue_outcomes:
  "req_method (get_request self (issue_url self key) issue_fields) = GET
   \<and> params (get_request self (issue_url self key) issue_fields) = issue_fields
   \<and> (server w (get_request self (issue_url self key) issue_fields) = Inr (Response status body) \<longrightarrow>
        ft_get_issue self key w =
          (if 400 \<le> status \<and> status < 600
           then (Inl (SystemExit 1),
                 w\<lparr>trace := trace w @
                   [Sent (get_request self (issue_url self key) issue_fields),
                    Print (if status = 401 then MsgAuthFailed
                           else if status = 404 then MsgTicketNotFound key
                           else MsgHttpError (HTTPError status))]\<rparr>)
           else (case body of
                   Some issue \<Rightarrow>
                     (Inr issue,
                      w\<lparr>trace := trace w @
                        [Sent (get_request self (issue_url self key) issue_fields)]\<rparr>)
                 | None \<Rightarrow>
                     (Inl (SystemExit 1),
                      w\<lparr>trace := trace w @
                        [Sent (get_request self (issue_url self key) issue_fields),
                         Print (MsgConnectError JSONDecodeError)]\<rparr>))))
   \<and> params (get_request self (issue_url self key) []) = []
   \<and> (server w (get_request self (issue_url self key) []) = Inr (Response status body) \<longrightarrow>
        sw_get_issue self key w =
          (if 400 \<le> status \<and> status < 600 then Inl (HTTPError status)
           else (case body of Some issue \<Rightarrow> Inr issue | None \<Rightarrow> Inl JSONDecodeError),
           w\<lparr>trace := trace w @ [Sent (get_request self (issue_url self key) [])]\<rparr>))"
  by (auto simp: ft_get_issue_def sw_get_issue_def get_request_def io_defs split: option.splits)

theorem get_issue_outcomes_witness:
  "ft_get_issue sample_client ''PROJ-404'' (sample_world NoFile [] not_found) =
     (Inl (SystemExit 1),
      (sample_world NoFile [] not_found)
        \<lparr>trace := [Sent (get_request sample_client
                      ''https://acme.atlassian.net/rest/api/3/issue/PROJ-404'' issue_fields),
                   Print (MsgTicketNotFound ''PROJ-404'')]\<rparr>)"
proof -
  let ?w = "sample_world NoFile [] not_found"
  have reply: "server ?w (get_request sample_client (issue_url sample_client ''PROJ-404'') issue_fields)
      = Inr (Response 404 None)"
    by (simp add: sample_world_def not_found_def)
  have u: "issue_url sample_client ''PROJ-404'' = ''https://acme.atlassian.net/rest/api/3/issue/PROJ-404''"
    by (simp add: issue_url_def sample_client_def)
  have t: "trace ?w = []"
    by (simp add: sample_world_def)
  from get_issue_outcomes [of sample_client "''PROJ-404''" ?w 404 None] reply
  show ?thesis by (simp add: u t)
qed

text \<open>
  C7 as stated fails for start-work.py: on a 404 its \<^verbatim>\<open>get_issue\<close> sends a GET
  without a field list, prints nothing and raises instead of leaving the process.
\<close>

theorem start_work_get_issue_raises:
  "sw_get_issue sample_client ''PROJ-404'' (sample_world NoFile [] not_found) =
     (Inl (HTTPError 404),
      (sample_world NoFile [] not_found)
        \<lparr>trace := [Sent \<lparr>req_method = GET,
                          url = ''https://acme.atlassian.net/rest/api/3/issue/PROJ-404'',
                          params = [], payload = None,
                          auth = (''dev@acme.io'', ''s3cret''),
                          headers = [(''Accept'', ''application/json'')]\<rparr>]\<rparr>)"
  by (simp add: sw_get_issue_def get_request_def issue_url_def sample_client_def sample_world_def
      not_found_def io_defs)

text \<open>
  C5, as amended. \<^verbatim>\<open>get_transitions\<close> of fetch-ticket.py never raises, and returns
  the empty list when the request fails (no response, or a status from 400 to 599).
  \<^verbatim>\<open>get_transitions\<close> of start-work.py raises on such a failure. Its caller
  \<^verbatim>\<open>transition_issue\<close> takes an empty list as no transition to apply: it prints
  that the transition is not available and returns false, without a request of its
  own.
\<close>

theorem get_transitions_outcomes:
  "(\<exists>ts. ft_get_transitions self key w =
       (Inr ts, w\<lparr>trace := trace w @ [Sent (get_request self (transitions_url self key) [])]\<rparr>))
   \<and> (http_failure (server w (get_request self (transitions_url self key) [])) \<longrightarrow>
        fst (ft_get_transitions self key w) = Inr (JArr [])
        \<and> (\<exists>e. fst (sw_get_transitions self key w) = Inl e \<and> is_Exception e))
   \<and> (fst (sw_get_transitions self key w) = Inr (JArr []) \<longrightarrow>
        transition_issue self key name w =
          (Inr False,
           w\<lparr>trace := trace w @ [Sent (get_request self (transitions_url self key) []),
                                  Print (MsgTransitionNotAvailable name)]\<rparr>))"
proof (intro conjI impI)
  show "\<exists>ts. ft_get_transitions self key w =
       (Inr ts, w\<lparr>trace := trace w @ [Sent (get_request self (transitions_url self key) [])]\<rparr>)"
    by (auto simp: ft_get_transitions_def io_defs
        split: sum.splits response.splits option.splits prod.splits)
next
  assume "http_failure (server w (get_request self (transitions_url self key) []))"
  then show "fst (ft_get_transitions self key w) = Inr (JArr [])"
    by (auto simp: ft_get_transitions_def http_failure_def io_defs
        split: sum.splits response.splits option.splits prod.splits)
next
  assume "http_failure (server w (get_request self (transitions_url self key) []))"
  then show "\<exists>e. fst (sw_get_transitions self key w) = Inl e \<and> is_Exception e"
    by (auto simp: sw_get_transitions_def http_failure_def io_defs
        split: sum.splits response.splits option.splits prod.splits)
next
  assume "fst (sw_get_transitions self key w) = Inr (JArr [])"
  moreover have "snd (sw_get_transitions self key w)
      = w\<lparr>trace := trace w @ [Sent (get_request self (transitions_url self key) [])]\<rparr>"
    by (auto simp: sw_get_transitions_def io_defs
        split: sum.splits response.splits option.splits prod.splits)
  ultimately have "sw_get_transitions self key w =
      (Inr (JArr []), w\<lparr>trace := trace w @ [Sent (get_request self (transitions_url self key) [])]\<rparr>)"
    by (cases "sw_get_transitions self key w") simp
  then show "transition_issue self key name w =
          (Inr False,
           w\<lparr>trace := trace w @ [Sent (get_request self (transitions_url self key) []),
                                  Print (MsgTransitionNotAvailable name)]\<rparr>)"
    by (simp add: transition_issue_def then_do_def lift_def say_def emit_def ret_def)
qed

theorem get_transitions_outcomes_witness:
  "http_failure (server (sample_world NoFile [] server_error)
       (get_request sample_client (transitions_url sample_client ''PROJ-1'') []))
   \<and> fst (ft_get_transitions sample_client ''PROJ-1'' (sample_world NoFile [] server_error))
       = Inr (JArr [])
   \<and> is_Exception (HTTPError 500)"
proof -
  let ?w = "sample_world NoFile [] server_error"
  have failed: "http_failure (server ?w
       (get_request sample_client (transitions_url sample_client ''PROJ-1'') []))"
    by (simp add: http_failure_def sample_world_def server_error_def)
  from get_transitions_outcomes [of sample_client "''PROJ-1''" ?w] failed
  show ?thesis by simp
qed

text \<open>
  C5 as stated fails for start-work.py: when the tracker answers 500, its
  \<^verbatim>\<open>get_transitions\<close> raises the \<open>HTTPError\<close> instead of returning the empty list.
\<close>

theorem start_work_get_transitions_raises:
  "fst (sw_get_transitions sample_client ''PROJ-1'' (sample_world NoFile [] server_error))
     = Inl (HTTPError 500)
   \<and> fst (sw_get_transitions sample_client ''PROJ-1'' (sample_world NoFile [] server_error))
     \<noteq> Inr (JArr [])"
  by (simp add: sw_get_transitions_def get_request_def sample_world_def server_error_def io_defs)

section \<open>Properties of create_branch\<close>




















section \<open>Properties of the script\<close>


text \<open>
  C2 fails on the file as it stands. With a complete profile in the config file, a
  repository on its main branch and a tracker that serves ticket PROJ-7 and answers
  500 to the transition and comment calls, the run ends with \<open>SyntaxError\<close> and exit
  code 1: the summary is not printed, no request is sent and no branch is made.
\<close>

theorem start_work_never_reaches_summary:
  "start_work [''--ticket'', ''PROJ-7''] (sample_world full_config [] flaky_tracker)
     = (Inl SyntaxError, sample_world full_config [] flaky_tracker)
   \<and> exit_code (fst (start_work [''--ticket'', ''PROJ-7'']
        (sample_world full_config [] flaky_tracker))) = 1
   \<and> trace (snd (start_work [''--ticket'', ''PROJ-7'']
        (sample_world full_config [] flaky_tracker))) = []
   \<and> repo (snd (start_work [''--ticket'', ''PROJ-7'']
        (sample_world full_config [] flaky_tracker))) = sample_repo"
  by (simp add: start_work_def raise_def sample_world_def)

end
